theory Spec2Isabelle
  imports Main
begin

section \<open>MAC address vendor lookup: the model of main.py\<close>

text \<open>
  A Python \<open>str\<close> is modelled as a \<open>string\<close>; a \<open>char\<close> stands for the code point
  of the same number (0 to 255). Exceptions are values: a function that may raise returns
  \<open>exn + 'a\<close>, with \<open>Inl\<close> for the exception.
\<close>

subsection \<open>Exceptions\<close>

text \<open>
  The exception classes that the calls of main.py can raise. \<open>HTTPError\<close> (with the
  status code) is what \<open>raise_for_status\<close> raises; \<open>RequestsJSONDecodeError\<close> is the
  error of \<open>response.json()\<close> in requests 2.27 and later, which derives from both
  \<open>RequestException\<close> and \<open>ValueError\<close> (older versions raise a plain \<open>ValueError\<close>).
  \<open>OtherException\<close> stands for any further subclass of \<open>Exception\<close>.
\<close>

datatype exn =
    OSError
  | RequestException
  | HTTPError int
  | RequestsJSONDecodeError
  | ValueError
  | TypeError
  | KeyError
  | OtherException

text \<open>\<open>isinstance(e, requests.exceptions.RequestException)\<close>\<close>

fun is_RequestException :: "exn \<Rightarrow> bool" where
  "is_RequestException RequestException = True"
| "is_RequestException (HTTPError _) = True"
| "is_RequestException RequestsJSONDecodeError = True"
| "is_RequestException _ = False"

text \<open>\<open>isinstance(e, ValueError)\<close>\<close>

fun is_ValueError :: "exn \<Rightarrow> bool" where
  "is_ValueError ValueError = True"
| "is_ValueError RequestsJSONDecodeError = True"
| "is_ValueError _ = False"

text \<open>
  \<open>isinstance(e, socket.error)\<close>: \<open>socket.error\<close> is \<open>OSError\<close>, and
  \<open>RequestException\<close> derives from \<open>IOError\<close>, which is \<open>OSError\<close> too.
\<close>

fun is_socket_error :: "exn \<Rightarrow> bool" where
  "is_socket_error OSError = True"
| "is_socket_error e = is_RequestException e"

subsection \<open>String operations of Python\<close>

text \<open>\<open>s.split(sep)\<close> for a one-character separator: never empty, keeps empty parts.\<close>

fun split :: "char \<Rightarrow> string \<Rightarrow> string list" where
  "split sep [] = [[]]"
| "split sep (c # cs) =
     (if c = sep then [] # split sep cs
      else (c # hd (split sep cs)) # tl (split sep cs))"

text \<open>\<open>sep.join(parts)\<close>\<close>

fun join :: "string \<Rightarrow> string list \<Rightarrow> string" where
  "join sep [] = []"
| "join sep [p] = p"
| "join sep (p # q # ps) = p @ sep @ join sep (q # ps)"

text \<open>
  \<open>c.isspace()\<close> on the code points below 256: TAB to CR, FS to US, space, NEL and the
  no-break space.
\<close>

definition isspace :: "char \<Rightarrow> bool" where
  "isspace c = (let n = (of_char c :: nat) in
     (9 \<le> n \<and> n \<le> 13) \<or> (28 \<le> n \<and> n \<le> 32) \<or> n = 133 \<or> n = 160)"

text \<open>\<open>s.strip()\<close>\<close>

definition strip :: "string \<Rightarrow> string" where
  "strip s = rev (dropWhile isspace (rev (dropWhile isspace s)))"

subsection \<open>The C library's inet_aton\<close>

text \<open>
  \<open>socket.inet_aton\<close> hands its argument to \<open>inet_aton(3)\<close> of the C library. The
  model follows the algorithm of the GNU C library: numbers in the notation of C (leading
  \<open>0x\<close> hexadecimal, leading \<open>0\<close> octal, decimal otherwise), separated by dots, at most
  four of them, the last one filling the remaining bytes; after the last number the
  string ends or white space follows. The result is the address as a number below
  \<open>2 ^ 32\<close>, \<open>None\<close> where the C function returns 0.
\<close>

definition digit_value :: "char \<Rightarrow> nat option" where
  "digit_value c = (let n = (of_char c :: nat) in
     if 48 \<le> n \<and> n \<le> 57 then Some (n - 48)
     else if 97 \<le> n \<and> n \<le> 122 then Some (n - 87)
     else if 65 \<le> n \<and> n \<le> 90 then Some (n - 55)
     else None)"

definition isdigit :: "char \<Rightarrow> bool" where
  "isdigit c = (48 \<le> (of_char c :: nat) \<and> (of_char c :: nat) \<le> 57)"

text \<open>\<open>isascii(c) && isspace(c)\<close> of the C locale\<close>

definition c_isspace :: "char \<Rightarrow> bool" where
  "c_isspace c = (let n = (of_char c :: nat) in (9 \<le> n \<and> n \<le> 13) \<or> n = 32)"

text \<open>The digits of one number in a base: the value read and the rest of the string.\<close>

fun strtoul_digits :: "nat \<Rightarrow> nat \<Rightarrow> string \<Rightarrow> nat \<times> string" where
  "strtoul_digits base acc [] = (acc, [])"
| "strtoul_digits base acc (c # cs) =
     (case digit_value c of
        None \<Rightarrow> (acc, c # cs)
      | Some d \<Rightarrow>
          if d < base then strtoul_digits base (acc * base + d) cs else (acc, c # cs))"

definition hex_prefix :: "string \<Rightarrow> bool" where
  "hex_prefix s = (case s of
       c0 # x # h # _ \<Rightarrow>
         c0 = CHR ''0'' \<and> (x = CHR ''x'' \<or> x = CHR ''X'') \<and>
         (case digit_value h of None \<Rightarrow> False | Some d \<Rightarrow> d < 16)
     | _ \<Rightarrow> False)"

text \<open>\<open>strtoul(cp, &endp, 0)\<close> on a string whose first character is a digit.\<close>

definition strtoul :: "string \<Rightarrow> nat \<times> string" where
  "strtoul s =
     (if hex_prefix s then strtoul_digits 16 0 (drop 2 s)
      else if take 1 s = ''0'' then strtoul_digits 8 0 s
      else strtoul_digits 10 0 s)"

text \<open>The end of the loop: what follows the last number, and the number's range.\<close>

definition inet_aton_last :: "nat list \<Rightarrow> nat \<Rightarrow> bool \<Rightarrow> string \<Rightarrow> nat option" where
  "inet_aton_last parts val digit rest =
     (if rest \<noteq> [] \<and> \<not> c_isspace (hd rest) then None
      else if \<not> digit then None
      else if val > [0xffffffff, 0xffffff, 0xffff, 0xff] ! length parts then None
      else Some (foldl (\<lambda>a b. a * 256 + b) 0 parts * 256 ^ (4 - length parts) + val))"

function inet_aton_loop :: "nat list \<Rightarrow> string \<Rightarrow> nat option" where
  "inet_aton_loop parts s =
     (if s = [] \<or> \<not> isdigit (hd s) then None
      else if fst (strtoul s) > 0xffffffff then None
      else if snd (strtoul s) \<noteq> [] \<and> hd (snd (strtoul s)) = CHR ''.'' then
        (if length parts > 2 \<or> fst (strtoul s) > 0xff then None
         else inet_aton_loop (parts @ [fst (strtoul s)]) (tl (snd (strtoul s))))
      else inet_aton_last parts (fst (strtoul s)) (snd (strtoul s) \<noteq> s) (snd (strtoul s)))"
  by pat_completeness auto

lemma strtoul_digits_length: "length (snd (strtoul_digits base acc s)) \<le> length s"
  by (induction s arbitrary: acc) (auto split: option.splits intro: le_SucI)

lemma strtoul_length: "length (snd (strtoul s)) \<le> length s"
proof -
  have "length (snd (strtoul_digits 16 0 (drop 2 s))) \<le> length s"
    using strtoul_digits_length [of 16 0 "drop 2 s"] by simp
  then show ?thesis
    by (simp add: strtoul_def strtoul_digits_length)
qed

termination inet_aton_loop
proof (relation "measure (\<lambda>(parts, s). length s)")
  show "wf (measure (\<lambda>(parts, s). length s))" by simp
next
  fix parts :: "nat list" and s :: string
  assume "snd (strtoul s) \<noteq> [] \<and> hd (snd (strtoul s)) = CHR ''.''"
  then have "length (tl (snd (strtoul s))) < length (snd (strtoul s))" by simp
  also have "\<dots> \<le> length s" by (rule strtoul_length)
  finally show "((parts @ [fst (strtoul s)], tl (snd (strtoul s))), (parts, s))
      \<in> measure (\<lambda>(parts, s). length s)" by simp
qed

definition inet_aton :: "string \<Rightarrow> nat option" where
  "inet_aton s = inet_aton_loop [] s"

text \<open>
  The wrapper of CPython: an argument with an embedded NUL is a \<open>ValueError\<close>, an
  address that the C function refuses is an \<open>OSError\<close>. The C function is a parameter:
  which strings are addresses depends on the C library.
\<close>

definition socket_inet_aton :: "(string \<Rightarrow> nat option) \<Rightarrow> string \<Rightarrow> exn + nat" where
  "socket_inet_aton libc s =
     (if CHR 0x00 \<in> set s then Inl ValueError
      else case libc s of None \<Rightarrow> Inl OSError | Some a \<Rightarrow> Inr a)"

subsection \<open>is_valid_mac_address\<close>

text \<open>The loop over the octets, with its two early returns.\<close>

fun check_octets :: "string list \<Rightarrow> bool" where
  "check_octets [] = True"
| "check_octets (octet # rest) =
     (if length octet \<noteq> 2 then False
      else if \<not> list_all (\<lambda>c. c \<in> set ''0123456789abcdefABCDEF'') octet then False
      else check_octets rest)"

text \<open>The body of the \<open>try\<close>.\<close>

definition is_valid_mac_address_try :: "(string \<Rightarrow> nat option) \<Rightarrow> string \<Rightarrow> exn + bool" where
  "is_valid_mac_address_try libc mac_address =
     (case socket_inet_aton libc (join '':'' (replicate 6 ''0'')) of
        Inl e \<Rightarrow> Inl e
      | Inr _ \<Rightarrow>
          if length (split CHR '':'' mac_address) \<noteq> 6 then Inr False
          else Inr (check_octets (split CHR '':'' mac_address)))"

text \<open>The \<open>try\<close> with its handler \<open>except socket.error: return False\<close>.\<close>

definition is_valid_mac_address :: "(string \<Rightarrow> nat option) \<Rightarrow> string \<Rightarrow> exn + bool" where
  "is_valid_mac_address libc mac_address =
     (case is_valid_mac_address_try libc mac_address of
        Inl e \<Rightarrow> if is_socket_error e then Inr False else Inl e
      | Inr b \<Rightarrow> Inr b)"

text \<open>
  The function with the call of \<open>socket.inet_aton\<close> removed; with the call gone nothing
  in the body raises, and the handler has nothing to catch.
\<close>

definition is_valid_mac_address_without_dummy :: "string \<Rightarrow> exn + bool" where
  "is_valid_mac_address_without_dummy mac_address =
     (if length (split CHR '':'' mac_address) \<noteq> 6 then Inr False
      else Inr (check_octets (split CHR '':'' mac_address)))"

text \<open>A hexadecimal digit, by its code point: 0 to 9, A to F, a to f.\<close>

definition hex_digit :: "char \<Rightarrow> bool" where
  "hex_digit c = (let n = (of_char c :: nat) in
     (48 \<le> n \<and> n \<le> 57) \<or> (65 \<le> n \<and> n \<le> 70) \<or> (97 \<le> n \<and> n \<le> 102))"

subsection \<open>Values decoded from JSON\<close>

text \<open>
  What \<open>response.json()\<close> returns: \<open>None\<close>, a bool, an int, a float, a \<open>str\<close>, a list
  or a dict with string keys (in insertion order). Of a float the program reads only
  whether it is non-zero, so that is what \<open>PFloat\<close> holds, beside its text.
\<close>

datatype pyval =
    PNone
  | PBool bool
  | PInt int
  | PFloat bool string
  | PStr string
  | PList "pyval list"
  | PDict "(string \<times> pyval) list"

text \<open>The truth value of \<open>if v:\<close>.\<close>

fun truthy :: "pyval \<Rightarrow> bool" where
  "truthy PNone = False"
| "truthy (PBool b) = b"
| "truthy (PInt i) = (i \<noteq> 0)"
| "truthy (PFloat nonzero _) = nonzero"
| "truthy (PStr s) = (s \<noteq> [])"
| "truthy (PList xs) = (xs \<noteq> [])"
| "truthy (PDict kvs) = (kvs \<noteq> [])"

text \<open>\<open>needle in haystack\<close> on two \<open>str\<close>: a contiguous occurrence.\<close>

fun is_prefix :: "string \<Rightarrow> string \<Rightarrow> bool" where
  "is_prefix [] ys = True"
| "is_prefix (x # xs) [] = False"
| "is_prefix (x # xs) (y # ys) = (x = y \<and> is_prefix xs ys)"

fun occurs_in :: "string \<Rightarrow> string \<Rightarrow> bool" where
  "occurs_in xs [] = (xs = [])"
| "occurs_in xs (y # ys) = (is_prefix xs (y # ys) \<or> occurs_in xs ys)"

text \<open>
  \<open>key in v\<close> for a \<open>str\<close> key: a key of a dict, an element of a list, a substring of a
  \<open>str\<close>; a \<open>TypeError\<close> on a value that is no container.
\<close>

fun py_in :: "string \<Rightarrow> pyval \<Rightarrow> exn + bool" where
  "py_in k (PDict kvs) = Inr (map_of kvs k \<noteq> None)"
| "py_in k (PList xs) = Inr (List.member xs (PStr k))"
| "py_in k (PStr s) = Inr (occurs_in k s)"
| "py_in k _ = Inl TypeError"

text \<open>
  \<open>v[key]\<close> for a \<open>str\<close> key: the value of a dict (\<open>KeyError\<close> without the key), a
  \<open>TypeError\<close> on every other value.
\<close>

fun py_getitem :: "pyval \<Rightarrow> string \<Rightarrow> exn + pyval" where
  "py_getitem (PDict kvs) k = (case map_of kvs k of None \<Rightarrow> Inl KeyError | Some v \<Rightarrow> Inr v)"
| "py_getitem _ k = Inl TypeError"

subsection \<open>Logging\<close>

datatype log_level = DEBUG | INFO | WARNING | ERROR

fun level_no :: "log_level \<Rightarrow> nat" where
  "level_no DEBUG = 10"
| "level_no INFO = 20"
| "level_no WARNING = 30"
| "level_no ERROR = 40"

text \<open>
  A message is its text; where the source formats an exception into it, the message is
  the text before the exception and the exception.
\<close>

datatype log_message = Text string | TextExn string exn

text \<open>The root logger: its level and the records it has emitted.\<close>

record logger =
  level :: log_level
  records :: "(log_level \<times> log_message) list"

definition emit :: "log_level \<Rightarrow> log_message \<Rightarrow> logger \<Rightarrow> logger" where
  "emit lvl msg lg =
     (if level_no (level lg) \<le> level_no lvl then lg\<lparr>records := records lg @ [(lvl, msg)]\<rparr>
      else lg)"

subsection \<open>The platform\<close>

text \<open>
  What \<open>requests.get(url)\<close> does: it raises, or it returns a response, of which the
  program reads the status code and what \<open>response.json()\<close> does (raise, or return the
  decoded value).
\<close>

datatype http_reply = Raises exn | Response int "exn + pyval"

text \<open>
  What a run depends on beside its arguments: the C library's \<open>inet_aton\<close>, the answer of
  the network to a GET of a URL, and the text that \<open>str()\<close> gives for a value that is not a
  \<open>str\<close>.
\<close>

record platform =
  libc_inet_aton :: "string \<Rightarrow> nat option"
  requests_get :: "string \<Rightarrow> http_reply"
  str_of :: "pyval \<Rightarrow> string"

subsection \<open>lookup_mac_vendor\<close>

definition MAC_VENDOR_API_URL :: "string \<Rightarrow> string" where
  "MAC_VENDOR_API_URL mac_address = ''https://macvendors.co/api/'' @ mac_address"

text \<open>\<open>response.raise_for_status()\<close>: an \<open>HTTPError\<close> for a status from 400 to 599.\<close>

definition raise_for_status :: "int \<Rightarrow> exn option" where
  "raise_for_status status_code =
     (if 400 \<le> status_code \<and> status_code < 600 then Some (HTTPError status_code) else None)"

text \<open>\<open>data and 'result' in data and 'company' in data['result']\<close>, as a condition.\<close>

definition has_company :: "pyval \<Rightarrow> exn + bool" where
  "has_company data =
     (if \<not> truthy data then Inr False
      else case py_in ''result'' data of
        Inl e \<Rightarrow> Inl e
      | Inr False \<Rightarrow> Inr False
      | Inr True \<Rightarrow>
          (case py_getitem data ''result'' of
             Inl e \<Rightarrow> Inl e
           | Inr r \<Rightarrow> py_in ''company'' r))"

text \<open>\<open>data['result']['company']\<close>\<close>

definition get_company :: "pyval \<Rightarrow> exn + pyval" where
  "get_company data =
     (case py_getitem data ''result'' of
        Inl e \<Rightarrow> Inl e
      | Inr r \<Rightarrow> py_getitem r ''company'')"

text \<open>
  The body of the \<open>try\<close>: the value returned or the exception raised, and the logger
  after it.
\<close>

definition lookup_mac_vendor_try :: "platform \<Rightarrow> logger \<Rightarrow> string \<Rightarrow> (exn + pyval) \<times> logger" where
  "lookup_mac_vendor_try p lg mac_address =
     (let url = MAC_VENDOR_API_URL mac_address;
          lg1 = emit DEBUG (Text (''Sending request to '' @ url)) lg
      in case requests_get p url of
        Raises e \<Rightarrow> (Inl e, lg1)
      | Response status_code json \<Rightarrow>
          (case raise_for_status status_code of
             Some e \<Rightarrow> (Inl e, lg1)
           | None \<Rightarrow>
               (case json of
                  Inl e \<Rightarrow> (Inl e, lg1)
                | Inr data \<Rightarrow>
                    (case has_company data of
                       Inl e \<Rightarrow> (Inl e, lg1)
                     | Inr True \<Rightarrow> (get_company data, lg1)
                     | Inr False \<Rightarrow>
                         (Inr PNone,
                          emit WARNING
                            (Text (''Vendor information not found for MAC address: '' @ mac_address))
                            lg1)))))"

text \<open>The \<open>try\<close> with its three handlers, in the order of the source.\<close>

definition lookup_mac_vendor :: "platform \<Rightarrow> logger \<Rightarrow> string \<Rightarrow> (exn + pyval) \<times> logger" where
  "lookup_mac_vendor p lg mac_address =
     (case lookup_mac_vendor_try p lg mac_address of
        (Inr v, lg1) \<Rightarrow> (Inr v, lg1)
      | (Inl e, lg1) \<Rightarrow>
          if is_RequestException e then
            (Inr PNone, emit ERROR (TextExn ''An error occurred during the request: '' e) lg1)
          else if is_ValueError e then
            (Inr PNone, emit ERROR (TextExn ''Failed to parse JSON response: '' e) lg1)
          else
            (Inr PNone, emit ERROR (TextExn ''An unexpected error occurred: '' e) lg1))"

subsection \<open>main\<close>

text \<open>The namespace that \<open>parser.parse_args()\<close> returns.\<close>

record args =
  mac_address :: string
  verbose :: bool

text \<open>
  A run: the lines printed to standard output, the log records, the exit status, and the
  exception that ended the run if one was not caught (the interpreter then exits with
  status 1).
\<close>

record run =
  stdout :: "string list"
  logged :: "(log_level \<times> log_message) list"
  exit_status :: int
  uncaught :: "exn option"

text \<open>\<open>f"{v}"\<close>: a \<open>str\<close> is itself.\<close>

definition format_value :: "platform \<Rightarrow> pyval \<Rightarrow> string" where
  "format_value p v = (case v of PStr s \<Rightarrow> s | _ \<Rightarrow> str_of p v)"

definition main :: "platform \<Rightarrow> args \<Rightarrow> run" where
  "main p a =
     (let lg0 = \<lparr>level = INFO, records = []\<rparr>;
          lg1 = (if verbose a
                 then emit DEBUG (Text ''Verbose logging enabled.'') (lg0\<lparr>level := DEBUG\<rparr>)
                 else lg0);
          mac = strip (mac_address a)
      in case is_valid_mac_address (libc_inet_aton p) mac of
        Inl e \<Rightarrow> \<lparr>stdout = [], logged = records lg1, exit_status = 1, uncaught = Some e\<rparr>
      | Inr False \<Rightarrow>
          \<lparr>stdout = [],
           logged = records (emit ERROR
             (Text ''Invalid MAC address format. Please use the format XX:XX:XX:XX:XX:XX.'') lg1),
           exit_status = 1, uncaught = None\<rparr>
      | Inr True \<Rightarrow>
          (let lg2 = emit INFO (Text (''Looking up vendor for MAC address: '' @ mac)) lg1
           in case lookup_mac_vendor p lg2 mac of
             (Inl e, lg3) \<Rightarrow>
               \<lparr>stdout = [], logged = records lg3, exit_status = 1, uncaught = Some e\<rparr>
           | (Inr vendor_info, lg3) \<Rightarrow>
               if truthy vendor_info then
                 \<lparr>stdout = [''Vendor: '' @ format_value p vendor_info],
                  logged = records lg3, exit_status = 0, uncaught = None\<rparr>
               else
                 \<lparr>stdout = [''Vendor information not found.''],
                  logged = records lg3, exit_status = 0, uncaught = None\<rparr>))"

subsection \<open>What the claims speak of\<close>

text \<open>The decoded body has a \<open>result\<close> object with a \<open>company\<close> field.\<close>

fun has_result_company :: "pyval \<Rightarrow> bool" where
  "has_result_company (PDict kvs) =
     (case map_of kvs ''result'' of
        Some (PDict r) \<Rightarrow> map_of r ''company'' \<noteq> None
      | _ \<Rightarrow> False)"
| "has_result_company _ = False"

text \<open>
  What \<open>response.json()\<close> does gives no \<open>result.company\<close>: it raises (the body is no
  JSON), or the decoded value has no such field.
\<close>

fun lacks_company :: "exn + pyval \<Rightarrow> bool" where
  "lacks_company (Inl e) = True"
| "lacks_company (Inr data) = (\<not> has_result_company data)"

text \<open>
  The two outcomes that the specification tells apart. Not found: a 2xx response whose
  JSON has no \<open>result.company\<close>. Request failed: \<open>requests.get\<close> raises a
  \<open>RequestException\<close> (a transport error), or the status is one that
  \<open>raise_for_status\<close> refuses.
\<close>

fun not_found :: "http_reply \<Rightarrow> bool" where
  "not_found (Response status_code (Inr data)) =
     (200 \<le> status_code \<and> status_code < 300 \<and> \<not> has_result_company data)"
| "not_found _ = False"

fun request_failed :: "http_reply \<Rightarrow> bool" where
  "request_failed (Raises e) = is_RequestException e"
| "request_failed (Response status_code json) = (400 \<le> status_code \<and> status_code < 600)"

text \<open>The logger of a run that has not logged yet.\<close>

definition fresh_logger :: logger where
  "fresh_logger = \<lparr>level = INFO, records = []\<rparr>"

text \<open>A C library, for tests, whose \<open>inet_aton\<close> takes every string for the address 0.\<close>

definition lenient_inet_aton :: "string \<Rightarrow> nat option" where
  "lenient_inet_aton s = Some 0"

text \<open>The body and the arguments of the examples of the specification.\<close>

definition acme_body :: pyval where
  "acme_body = PDict [(''result'', PDict [(''company'', PStr ''Acme Corp'')])]"

definition sample_args :: args where
  "sample_args = \<lparr>mac_address = ''00:1A:2B:3C:4D:5E'', verbose = False\<rparr>"

text \<open>A network, for tests, that answers every GET with one reply.\<close>

definition mock_platform :: "(string \<Rightarrow> nat option) \<Rightarrow> http_reply \<Rightarrow> platform" where
  "mock_platform libc reply =
     \<lparr>libc_inet_aton = libc, requests_get = (\<lambda>url. reply), str_of = (\<lambda>v. ''?'')\<rparr>"

section \<open>Properties\<close>

subsection \<open>Strings\<close>

lemma split_not_Nil: "split sep s \<noteq> []"
  by (cases s) auto

lemma split_no_sep: "sep \<notin> set p \<Longrightarrow> split sep p = [p]"
  by (induction p) auto

lemma split_append: "sep \<notin> set p \<Longrightarrow> split sep (p @ sep # rest) = p # split sep rest"
  by (induction p) auto

text \<open>Splitting undoes joining, and joining undoes splitting.\<close>

lemma split_join:
  "ps \<noteq> [] \<Longrightarrow> list_all (\<lambda>p. sep \<notin> set p) ps \<Longrightarrow> split sep (join [sep] ps) = ps"
proof (induction ps rule: induct_list012)
  case 1
  then show ?case by simp
next
  case (2 p)
  then show ?case by (simp add: split_no_sep)
next
  case (3 p q ps)
  then show ?case by (simp add: split_append)
qed

lemma join_split: "join [sep] (split sep s) = s"
proof (induction s)
  case Nil
  show ?case by simp
next
  case (Cons c cs)
  obtain p ps where sp: "split sep cs = p # ps"
    using split_not_Nil [of sep cs] by (cases "split sep cs") auto
  with Cons show ?case
    by (cases ps) auto
qed

lemma hex_digit_chars: "hex_digit c = (c \<in> set ''0123456789abcdefABCDEF'')"
proof (cases c)
  case (Char b0 b1 b2 b3 b4 b5 b6 b7)
  show ?thesis
    unfolding Char hex_digit_def Let_def
    by (cases b0; cases b1; cases b2; cases b3; cases b4; cases b5; cases b6; cases b7; simp)
qed

subsection \<open>The dummy call\<close>

lemma dummy_argument: "join '':'' (replicate 6 ''0'') = ''0:0:0:0:0:0''"
  by (simp add: numeral_eq_Suc)

text \<open>The C library takes a dotted address and refuses the argument of the dummy call.\<close>

lemma inet_aton_loopback: "inet_aton ''127.0.0.1'' = Some 0x7f000001"
  by (simp add: inet_aton_def strtoul_def hex_prefix_def isdigit_def digit_value_def
      inet_aton_last_def c_isspace_def)

lemma inet_aton_dummy: "inet_aton ''0:0:0:0:0:0'' = None"
  by (simp add: inet_aton_def strtoul_def hex_prefix_def isdigit_def digit_value_def
      inet_aton_last_def c_isspace_def)

lemma socket_inet_aton_dummy:
  "socket_inet_aton libc ''0:0:0:0:0:0'' =
     (case libc ''0:0:0:0:0:0'' of None \<Rightarrow> Inl OSError | Some a \<Rightarrow> Inr a)"
  by (simp add: socket_inet_aton_def)

text \<open>
  The outcome of the dummy call decides the function: where the C library refuses the
  string, every address is invalid; where it takes the string, the call changes nothing.
\<close>

lemma is_valid_refused:
  "libc ''0:0:0:0:0:0'' = None \<Longrightarrow> is_valid_mac_address libc s = Inr False"
  by (simp add: is_valid_mac_address_def is_valid_mac_address_try_def dummy_argument
      socket_inet_aton_dummy)

lemma is_valid_accepted:
  "libc ''0:0:0:0:0:0'' = Some a \<Longrightarrow>
     is_valid_mac_address libc s = is_valid_mac_address_without_dummy s"
  by (simp add: is_valid_mac_address_def is_valid_mac_address_try_def dummy_argument
      socket_inet_aton_dummy is_valid_mac_address_without_dummy_def)

subsection \<open>The checks on the parts\<close>

lemma check_octets_iff:
  "check_octets ps = list_all (\<lambda>q. length q = 2 \<and> list_all hex_digit q) ps"
  by (induction ps) (simp_all add: hex_digit_chars)

lemma without_dummy_iff:
  "is_valid_mac_address_without_dummy s =
     Inr (length (split CHR '':'' s) = 6 \<and>
          list_all (\<lambda>q. length q = 2 \<and> list_all hex_digit q) (split CHR '':'' s))"
  by (simp add: is_valid_mac_address_without_dummy_def check_octets_iff)

lemma is_valid_total: "\<exists>b. is_valid_mac_address libc s = Inr b"
proof (cases "libc ''0:0:0:0:0:0''")
  case None
  then show ?thesis using is_valid_refused [of libc s] by blast
next
  case (Some a)
  have "\<exists>b. is_valid_mac_address_without_dummy s = Inr b"
    unfolding without_dummy_iff by blast
  then show ?thesis using Some is_valid_accepted [of libc a s] by simp
qed

text \<open>
  With the dummy call out of the way the function is the validator of the specification:
  it accepts exactly the six colon-separated pairs of hexadecimal digits.
\<close>

lemma without_dummy_accepts:
  assumes "length parts = 6"
    and "list_all (\<lambda>q. length q = 2 \<and> list_all hex_digit q) parts"
  shows "is_valid_mac_address_without_dummy (join '':'' parts) = Inr True"
proof -
  have "CHR '':'' \<notin> set q" if "list_all hex_digit q" for q
    using that by (auto simp: list_all_iff hex_digit_def)
  then have "list_all (\<lambda>q. CHR '':'' \<notin> set q) parts"
    using assms(2) by (auto simp: list_all_iff)
  moreover have "parts \<noteq> []" using assms(1) by auto
  ultimately have "split CHR '':'' (join '':'' parts) = parts"
    using split_join [of parts "CHR '':''"] by simp
  then show ?thesis using assms by (simp add: without_dummy_iff)
qed

lemma sample_mac_upper: "is_valid_mac_address_without_dummy ''00:1A:2B:3C:4D:5E'' = Inr True"
  by (simp add: is_valid_mac_address_without_dummy_def)

lemma sample_mac_lower: "is_valid_mac_address_without_dummy ''00:1a:2b:3c:4d:5e'' = Inr True"
  by (simp add: is_valid_mac_address_without_dummy_def)

lemma strip_sample_mac: "strip ''00:1A:2B:3C:4D:5E'' = ''00:1A:2B:3C:4D:5E''"
  by (simp add: strip_def isspace_def)

lemma lenient_accepts_sample:
  "is_valid_mac_address lenient_inet_aton ''00:1A:2B:3C:4D:5E'' = Inr True"
  using is_valid_accepted [of lenient_inet_aton 0 "''00:1A:2B:3C:4D:5E''"]
  by (simp add: lenient_inet_aton_def sample_mac_upper)

subsection \<open>The validator\<close>

text \<open>
  C1: every well-formed address, six colon-separated parts of two hexadecimal digits each,
  is valid. The code does not do this: the dummy call
  \<open>socket.inet_aton('0:0:0:0:0:0')\<close> raises \<open>socket.error\<close> (the string is no dotted
  IPv4 address), the handler returns \<open>False\<close>, and the well-formed address
  \<open>00:1A:2B:3C:4D:5E\<close> is rejected.
\<close>

theorem well_formed_mac_rejected:
  "is_valid_mac_address inet_aton ''00:1A:2B:3C:4D:5E'' = Inr False"
proof -
  have "socket_inet_aton inet_aton ''0:0:0:0:0:0'' = Inl OSError"
    by (simp add: socket_inet_aton_dummy inet_aton_dummy)
  then have "is_valid_mac_address_try inet_aton ''00:1A:2B:3C:4D:5E'' = Inl OSError"
    by (simp add: is_valid_mac_address_try_def dummy_argument)
  then show ?thesis
    by (simp add: is_valid_mac_address_def)
qed

text \<open>
  C2: the dummy call has no effect on the outcome, that is, the function returns what
  the function without the call returns. The code does not do this either, by the same
  defect: on \<open>00:1a:2b:3c:4d:5e\<close> the function returns \<open>False\<close> and the function
  without the call returns \<open>True\<close>.
\<close>

theorem dummy_call_decides:
  "is_valid_mac_address inet_aton ''00:1a:2b:3c:4d:5e'' = Inr False \<and>
   is_valid_mac_address_without_dummy ''00:1a:2b:3c:4d:5e'' = Inr True"
proof
  show "is_valid_mac_address inet_aton ''00:1a:2b:3c:4d:5e'' = Inr False"
    using inet_aton_dummy by (rule is_valid_refused)
  show "is_valid_mac_address_without_dummy ''00:1a:2b:3c:4d:5e'' = Inr True"
    by (rule sample_mac_lower)
qed

text \<open>
  C3: a string that does not split into exactly six parts at its colons, or that has a
  part whose length is not 2 or that holds a character that is no hexadecimal digit, is
  invalid, whatever the C library does with the dummy call.
\<close>

theorem malformed_mac_rejected:
  assumes "length (split CHR '':'' s) \<noteq> 6 \<or>
           (\<exists>part \<in> set (split CHR '':'' s).
              length part \<noteq> 2 \<or> (\<exists>c \<in> set part. \<not> hex_digit c))"
  shows "is_valid_mac_address libc s = Inr False"
proof (cases "libc ''0:0:0:0:0:0''")
  case None
  then show ?thesis by (rule is_valid_refused)
next
  case (Some a)
  have "\<not> (length (split CHR '':'' s) = 6 \<and>
            list_all (\<lambda>q. length q = 2 \<and> list_all hex_digit q) (split CHR '':'' s))"
    using assms by (auto simp: list_all_iff)
  then have "is_valid_mac_address_without_dummy s = Inr False"
    by (simp add: without_dummy_iff)
  then show ?thesis
    using Some is_valid_accepted [of libc a s] by simp
qed

theorem malformed_mac_rejected_witness:
  "length (split CHR '':'' ''not-a-mac'') \<noteq> 6 \<and>
   is_valid_mac_address lenient_inet_aton ''not-a-mac'' = Inr False \<and>
   (\<exists>c \<in> set ''0G''. \<not> hex_digit c) \<and>
   is_valid_mac_address lenient_inet_aton ''00:1A:2B:3C:4D:0G'' = Inr False"
proof -
  have short: "length (split CHR '':'' ''not-a-mac'') \<noteq> 6"
    by simp
  have bad: "\<exists>c \<in> set ''0G''. \<not> hex_digit c"
    by (simp add: hex_digit_chars)
  have part: "''0G'' \<in> set (split CHR '':'' ''00:1A:2B:3C:4D:0G'')"
    by simp
  have "is_valid_mac_address lenient_inet_aton ''not-a-mac'' = Inr False"
    using short by (intro malformed_mac_rejected) simp
  moreover have "is_valid_mac_address lenient_inet_aton ''00:1A:2B:3C:4D:0G'' = Inr False"
    using part bad by (intro malformed_mac_rejected) blast
  ultimately show ?thesis using short bad by blast
qed

text \<open>
  C10: the function is total on strings: it returns a boolean for every input and every C
  library, since the one exception its body can raise, the \<open>socket.error\<close> of the dummy
  call on a string without NUL, is the one its handler catches.
\<close>

theorem is_valid_mac_address_returns:
  "\<exists>b. is_valid_mac_address libc s = Inr b"
proof (cases "socket_inet_aton libc ''0:0:0:0:0:0''")
  case (Inl e)
  then have "e = OSError"
    by (auto simp: socket_inet_aton_dummy split: option.splits)
  with Inl have "is_valid_mac_address libc s = Inr False"
    by (simp add: is_valid_mac_address_def is_valid_mac_address_try_def dummy_argument)
  then show ?thesis by blast
next
  case (Inr a)
  then have "is_valid_mac_address libc s =
      Inr (length (split CHR '':'' s) = 6 \<and> check_octets (split CHR '':'' s))"
    by (simp add: is_valid_mac_address_def is_valid_mac_address_try_def dummy_argument)
  then show ?thesis by blast
qed

theorem is_valid_mac_address_returns_witness:
  "(\<exists>b. is_valid_mac_address inet_aton ''not-a-mac'' = Inr b) \<and>
   (\<exists>b. is_valid_mac_address lenient_inet_aton ''00:1A:2B:3C:4D:5E'' = Inr b)"
  using is_valid_mac_address_returns [of inet_aton "''not-a-mac''"]
    is_valid_mac_address_returns [of lenient_inet_aton "''00:1A:2B:3C:4D:5E''"]
  by blast

subsection \<open>The resolver\<close>

lemma get_company_shape: "get_company data = Inr v \<Longrightarrow> has_result_company data"
  by (cases data; cases "py_getitem data ''result''")
     (auto simp: get_company_def split: option.splits pyval.splits)

text \<open>The value returned does not depend on the logger.\<close>

lemma try_value_logger:
  "fst (lookup_mac_vendor_try p lg mac) = fst (lookup_mac_vendor_try p lg' mac)"
  by (simp add: lookup_mac_vendor_try_def Let_def
      split: http_reply.splits option.splits sum.splits bool.splits)

text \<open>Every exception of the body becomes the value \<open>None\<close>.\<close>

lemma lookup_value:
  "fst (lookup_mac_vendor p lg mac) =
     (case fst (lookup_mac_vendor_try p lg mac) of Inl e \<Rightarrow> Inr PNone | Inr v \<Rightarrow> Inr v)"
  by (cases "lookup_mac_vendor_try p lg mac")
     (auto simp: lookup_mac_vendor_def split: sum.splits)

lemma lookup_value_logger:
  "fst (lookup_mac_vendor p lg mac) = fst (lookup_mac_vendor p lg' mac)"
  using try_value_logger [of p lg mac lg'] by (simp add: lookup_value)

lemma lookup_fresh:
  "lookup_mac_vendor p lg mac = (r, lg') \<Longrightarrow> fst (lookup_mac_vendor p fresh_logger mac) = r"
  using lookup_value_logger [of p fresh_logger mac lg] by simp

lemma lookup_total: "\<exists>v lg'. lookup_mac_vendor p lg mac = (Inr v, lg')"
  by (cases "lookup_mac_vendor_try p lg mac")
     (auto simp: lookup_mac_vendor_def split: sum.splits)

lemma lookup_raises:
  "requests_get p (MAC_VENDOR_API_URL mac) = Raises e \<Longrightarrow>
     fst (lookup_mac_vendor p lg mac) = Inr PNone"
  by (simp add: lookup_value lookup_mac_vendor_try_def Let_def)

lemma lookup_error_status:
  "requests_get p (MAC_VENDOR_API_URL mac) = Response status_code json \<Longrightarrow>
   400 \<le> status_code \<Longrightarrow> status_code < 600 \<Longrightarrow>
     fst (lookup_mac_vendor p lg mac) = Inr PNone"
  by (simp add: lookup_value lookup_mac_vendor_try_def Let_def raise_for_status_def)

lemma lookup_bad_json:
  "requests_get p (MAC_VENDOR_API_URL mac) = Response status_code (Inl e) \<Longrightarrow>
     fst (lookup_mac_vendor p lg mac) = Inr PNone"
  by (simp add: lookup_value lookup_mac_vendor_try_def Let_def split: option.splits)

lemma lookup_no_company:
  assumes "requests_get p (MAC_VENDOR_API_URL mac) = Response status_code (Inr data)"
    and "\<not> has_result_company data"
  shows "fst (lookup_mac_vendor p lg mac) = Inr PNone"
proof -
  have "get_company data = Inr v \<Longrightarrow> False" for v
    using assms(2) get_company_shape by blast
  then have "case get_company data of Inl e \<Rightarrow> True | Inr v \<Rightarrow> False"
    by (cases "get_company data") auto
  with assms(1) show ?thesis
    by (auto simp: lookup_value lookup_mac_vendor_try_def Let_def
        split: option.splits sum.splits bool.splits)
qed

lemma lookup_lacks_company:
  assumes "requests_get p (MAC_VENDOR_API_URL mac) = Response status_code json"
    and "lacks_company json"
  shows "fst (lookup_mac_vendor p lg mac) = Inr PNone"
proof (cases json)
  case (Inl e)
  with assms(1) show ?thesis by (simp add: lookup_bad_json)
next
  case (Inr data)
  with assms show ?thesis by (simp add: lookup_no_company)
qed

lemma lookup_company:
  assumes "requests_get p (MAC_VENDOR_API_URL mac) = Response status_code (Inr (PDict kvs))"
    and "\<not> (400 \<le> status_code \<and> status_code < 600)"
    and "map_of kvs ''result'' = Some (PDict r)"
    and "map_of r ''company'' = Some v"
  shows "fst (lookup_mac_vendor p lg mac) = Inr v"
proof -
  have "kvs \<noteq> []" using assms(3) by auto
  then have "has_company (PDict kvs) = Inr True"
    using assms(3,4) by (simp add: has_company_def)
  moreover have "get_company (PDict kvs) = Inr v"
    using assms(3,4) by (simp add: get_company_def)
  moreover have "raise_for_status status_code = None"
    using assms(2) by (auto simp: raise_for_status_def)
  ultimately show ?thesis
    using assms(1)
    by (simp add: lookup_value lookup_mac_vendor_try_def Let_def)
qed

subsection \<open>The driver\<close>

text \<open>
  What a run prints and how it exits, by the validator's verdict and the resolver's
  value; the \<open>verbose\<close> flag is not part of it.
\<close>

lemma main_stdout:
  "stdout (main p a) =
     (case is_valid_mac_address (libc_inet_aton p) (strip (mac_address a)) of
        Inl e \<Rightarrow> []
      | Inr False \<Rightarrow> []
      | Inr True \<Rightarrow>
          (case fst (lookup_mac_vendor p fresh_logger (strip (mac_address a))) of
             Inl e \<Rightarrow> []
           | Inr v \<Rightarrow>
               if truthy v then [''Vendor: '' @ format_value p v]
               else [''Vendor information not found.'']))"
  by (auto simp: main_def Let_def split: sum.splits bool.splits prod.splits
      dest!: lookup_fresh)

lemma main_exit_status:
  "exit_status (main p a) =
     (case is_valid_mac_address (libc_inet_aton p) (strip (mac_address a)) of
        Inl e \<Rightarrow> 1
      | Inr False \<Rightarrow> 1
      | Inr True \<Rightarrow>
          (case fst (lookup_mac_vendor p fresh_logger (strip (mac_address a))) of
             Inl e \<Rightarrow> 1
           | Inr v \<Rightarrow> 0))"
  by (auto simp: main_def Let_def split: sum.splits bool.splits prod.splits
      dest!: lookup_fresh)

lemma main_not_found:
  assumes "is_valid_mac_address (libc_inet_aton p) (strip (mac_address a)) = Inr True"
    and "fst (lookup_mac_vendor p fresh_logger (strip (mac_address a))) = Inr v"
    and "\<not> truthy v"
  shows "stdout (main p a) = [''Vendor information not found.''] \<and> exit_status (main p a) = 0"
  using assms by (simp add: main_stdout main_exit_status)

text \<open>The mocked platform.\<close>

lemma mock_platform_sel:
  "libc_inet_aton (mock_platform libc reply) = libc"
  "requests_get (mock_platform libc reply) url = reply"
  by (simp_all add: mock_platform_def)

lemma sample_args_sel:
  "strip (mac_address sample_args) = ''00:1A:2B:3C:4D:5E''"
  "strip (mac_address (sample_args\<lparr>verbose := b\<rparr>)) = ''00:1A:2B:3C:4D:5E''"
  by (simp_all add: sample_args_def strip_sample_mac)

lemma sample_valid:
  "is_valid_mac_address (libc_inet_aton (mock_platform lenient_inet_aton reply))
     (strip (mac_address sample_args)) = Inr True"
  "is_valid_mac_address lenient_inet_aton (strip (mac_address sample_args)) = Inr True"
  "is_valid_mac_address (libc_inet_aton (mock_platform lenient_inet_aton reply))
     (strip (mac_address (sample_args\<lparr>verbose := b\<rparr>))) = Inr True"
  by (simp_all add: mock_platform_sel sample_args_sel lenient_accepts_sample)

subsection \<open>The claims on the driver and the resolver\<close>

text \<open>
  C4: a run whose trimmed address fails validation exits with status 1 and prints
  nothing; the exit is the \<open>sys.exit(1)\<close> of the driver, not an uncaught exception.
\<close>

theorem invalid_mac_exits_1:
  assumes "is_valid_mac_address (libc_inet_aton p) (strip (mac_address a)) = Inr False"
  shows "stdout (main p a) = [] \<and> exit_status (main p a) = 1 \<and> uncaught (main p a) = None"
  using assms by (simp add: main_def Let_def)

theorem invalid_mac_exits_1_witness:
  "is_valid_mac_address
     (libc_inet_aton (mock_platform lenient_inet_aton (Response 200 (Inr acme_body))))
     (strip (mac_address \<lparr>mac_address = '' not-a-mac '', verbose = False\<rparr>)) = Inr False \<and>
   stdout (main (mock_platform lenient_inet_aton (Response 200 (Inr acme_body)))
     \<lparr>mac_address = '' not-a-mac '', verbose = False\<rparr>) = [] \<and>
   exit_status (main (mock_platform lenient_inet_aton (Response 200 (Inr acme_body)))
     \<lparr>mac_address = '' not-a-mac '', verbose = False\<rparr>) = 1"
proof -
  have trimmed: "strip '' not-a-mac '' = ''not-a-mac''"
    by (simp add: strip_def isspace_def)
  have "is_valid_mac_address_without_dummy ''not-a-mac'' = Inr False"
    by (simp add: is_valid_mac_address_without_dummy_def)
  then have "is_valid_mac_address lenient_inet_aton ''not-a-mac'' = Inr False"
    using is_valid_accepted [of lenient_inet_aton 0 "''not-a-mac''"]
    by (simp add: lenient_inet_aton_def)
  then have invalid: "is_valid_mac_address
     (libc_inet_aton (mock_platform lenient_inet_aton (Response 200 (Inr acme_body))))
     (strip (mac_address \<lparr>mac_address = '' not-a-mac '', verbose = False\<rparr>)) = Inr False"
    by (simp add: mock_platform_sel trimmed)
  from invalid_mac_exits_1 [OF invalid] invalid show ?thesis by simp
qed

text \<open>
  C5, as amended: in a run whose address passes validation, if the service answers with a
  status from 400 to 599, or with a 2xx status and a body that has no
  \<open>result.company\<close> (no JSON at all, or JSON without the field), the driver prints
  exactly the line \<open>Vendor information not found.\<close> and exits with status 0.
\<close>

theorem error_status_or_no_company_not_found:
  assumes valid: "is_valid_mac_address (libc_inet_aton p) (strip (mac_address a)) = Inr True"
    and reply: "requests_get p (MAC_VENDOR_API_URL (strip (mac_address a))) =
                  Response status_code json"
    and bad: "(400 \<le> status_code \<and> status_code < 600) \<or>
              (200 \<le> status_code \<and> status_code < 300 \<and> lacks_company json)"
  shows "stdout (main p a) = [''Vendor information not found.''] \<and> exit_status (main p a) = 0"
proof -
  have "fst (lookup_mac_vendor p fresh_logger (strip (mac_address a))) = Inr PNone"
    using bad
  proof
    assume "400 \<le> status_code \<and> status_code < 600"
    with reply show ?thesis by (simp add: lookup_error_status)
  next
    assume "200 \<le> status_code \<and> status_code < 300 \<and> lacks_company json"
    with reply show ?thesis by (simp add: lookup_lacks_company)
  qed
  with valid show ?thesis by (simp add: main_not_found)
qed

theorem error_status_or_no_company_not_found_witness:
  "stdout (main (mock_platform lenient_inet_aton (Response 500 (Inl ValueError))) sample_args) =
     [''Vendor information not found.''] \<and>
   exit_status (main (mock_platform lenient_inet_aton (Response 500 (Inl ValueError)))
     sample_args) = 0 \<and>
   lacks_company (Inr (PDict [(''result'', PDict [])])) \<and>
   stdout (main (mock_platform lenient_inet_aton
     (Response 200 (Inr (PDict [(''result'', PDict [])])))) sample_args) =
     [''Vendor information not found.''] \<and>
   exit_status (main (mock_platform lenient_inet_aton
     (Response 200 (Inr (PDict [(''result'', PDict [])])))) sample_args) = 0"
proof -
  have lacks: "lacks_company (Inr (PDict [(''result'', PDict [])]))"
    by simp
  have "stdout (main (mock_platform lenient_inet_aton (Response 500 (Inl ValueError)))
          sample_args) = [''Vendor information not found.''] \<and>
        exit_status (main (mock_platform lenient_inet_aton (Response 500 (Inl ValueError)))
          sample_args) = 0"
    by (rule error_status_or_no_company_not_found [where status_code = 500
          and json = "Inl ValueError"])
       (simp_all add: sample_valid mock_platform_sel)
  moreover have "stdout (main (mock_platform lenient_inet_aton
          (Response 200 (Inr (PDict [(''result'', PDict [])])))) sample_args) =
          [''Vendor information not found.''] \<and>
        exit_status (main (mock_platform lenient_inet_aton
          (Response 200 (Inr (PDict [(''result'', PDict [])])))) sample_args) = 0"
    by (rule error_status_or_no_company_not_found [where status_code = 200
          and json = "Inr (PDict [(''result'', PDict [])])"])
       (simp_all add: sample_valid mock_platform_sel)
  ultimately show ?thesis using lacks by blast
qed

text \<open>
  C5, as stated, fails on a status that is neither 2xx nor an error for
  \<open>raise_for_status\<close>: a 300 response that carries the company is printed as a vendor.
\<close>

theorem non_2xx_status_counterexample:
  "is_valid_mac_address
     (libc_inet_aton (mock_platform lenient_inet_aton (Response 300 (Inr acme_body))))
     (strip (mac_address sample_args)) = Inr True \<and>
   requests_get (mock_platform lenient_inet_aton (Response 300 (Inr acme_body)))
     (MAC_VENDOR_API_URL (strip (mac_address sample_args))) = Response 300 (Inr acme_body) \<and>
   \<not> (200 \<le> (300 :: int) \<and> (300 :: int) < 300) \<and>
   stdout (main (mock_platform lenient_inet_aton (Response 300 (Inr acme_body))) sample_args) =
     [''Vendor: Acme Corp''] \<and>
   stdout (main (mock_platform lenient_inet_aton (Response 300 (Inr acme_body))) sample_args) \<noteq>
     [''Vendor information not found.'']"
proof -
  have "fst (lookup_mac_vendor (mock_platform lenient_inet_aton (Response 300 (Inr acme_body)))
          fresh_logger (strip (mac_address sample_args))) = Inr (PStr ''Acme Corp'')"
    by (rule lookup_company [where status_code = 300
          and kvs = "[(''result'', PDict [(''company'', PStr ''Acme Corp'')])]"
          and r = "[(''company'', PStr ''Acme Corp'')]"])
       (simp_all add: mock_platform_sel acme_body_def)
  then have "stdout (main (mock_platform lenient_inet_aton (Response 300 (Inr acme_body)))
          sample_args) = [''Vendor: Acme Corp'']"
    by (simp add: main_stdout sample_valid format_value_def)
  then show ?thesis
    by (simp add: sample_valid mock_platform_sel)
qed

end
